theory Spec2Isabelle
  imports Main
begin

section \<open>Strings of the source language\<close>

text \<open>
  The modules are Python 3, whose \<open>str\<close> is a sequence of code points. A \<open>char\<close> of
  the model stands for one code point below 256, so that \<open>length\<close> counts what Python's
  \<open>len\<close> counts on such strings.
\<close>

definition partition_str :: "char \<Rightarrow> string \<Rightarrow> string \<times> string \<times> string" where
  \<comment> \<open>\<open>s.partition(c)\<close> for a one-character separator: the text before the first
      occurrence, the separator, the text after it; \<open>(s, '', '')\<close> when it is absent.\<close>
  "partition_str c s =
     (if c \<in> set s
      then (takeWhile (\<lambda>x. x \<noteq> c) s, [c], tl (dropWhile (\<lambda>x. x \<noteq> c) s))
      else (s, [], []))"

definition replace_chr :: "char \<Rightarrow> char \<Rightarrow> string \<Rightarrow> string" where
  \<comment> \<open>\<open>s.replace(a, b)\<close> for one-character \<open>a\<close> and \<open>b\<close>: every occurrence is replaced.\<close>
  "replace_chr a b s = map (\<lambda>x. if x = a then b else x) s"

definition isdigit_chr :: "char \<Rightarrow> bool" where
  \<comment> \<open>The code points below 256 for which \<open>str.isdigit\<close> holds: the ASCII digits and the
      superscripts two, three and one (U+00B2, U+00B3, U+00B9).\<close>
  "isdigit_chr c =
     (let n = (of_char c :: nat)
      in (48 \<le> n \<and> n \<le> 57) \<or> n = 178 \<or> n = 179 \<or> n = 185)"

definition isdigit :: "string \<Rightarrow> bool" where
  \<comment> \<open>\<open>s.isdigit()\<close>: false on the empty string.\<close>
  "isdigit s = (s \<noteq> [] \<and> list_all isdigit_chr s)"

fun join_str :: "string \<Rightarrow> string list \<Rightarrow> string" where
  \<comment> \<open>\<open>sep.join(parts)\<close>\<close>
  "join_str sep [] = []"
| "join_str sep [x] = x"
| "join_str sep (x # y # ys) = x @ sep @ join_str sep (y # ys)"

section \<open>analysis.iot: version accuracy\<close>

definition get_accurate_version :: "string \<Rightarrow> string \<Rightarrow> bool \<Rightarrow> string" where
  "get_accurate_version accuracy version use_epoch =
     (let version =
            (if use_epoch then replace_chr CHR '':'' CHR ''.'' version
             else if CHR '':'' \<in> set version
                  then snd (snd (partition_str CHR '':'' version))
                  else version)
      in if accuracy = ''none'' then []
         else if accuracy \<in> set [''major'', ''minor'', ''build''] then
           (let majorparts = partition_str CHR ''.'' version;
                version =
                  (if accuracy \<in> set [''major'', ''minor'', ''build'']
                      \<and> isdigit (fst majorparts)
                   then fst (partition_str CHR ''-'' (fst majorparts))
                   else version);
                minorparts = partition_str CHR ''.'' (snd (snd majorparts));
                version =
                  (if accuracy \<in> set [''minor'', ''build''] \<and> fst minorparts \<noteq> []
                   then join_str ''.''
                          [fst majorparts, fst (partition_str CHR ''-'' (fst minorparts))]
                   else version);
                buildparts = partition_str CHR ''.'' (snd (snd minorparts));
                version =
                  (if accuracy = ''build'' \<and> fst buildparts \<noteq> []
                   then join_str ''.''
                          [fst majorparts, fst minorparts,
                           fst (partition_str CHR ''-'' (fst buildparts))]
                   else version)
            in version)
         else version)"

section \<open>analysis.iot: alias expansion\<close>

text \<open>
  A package observation is the triple \<open>(name, variant, version)\<close> the enumeration modules
  store; the variant is \<open>None\<close> in every producer of the repository. A group of known
  aliases is the tuple of names of one line of the alias table.
\<close>

type_synonym package = "string \<times> string option \<times> string"

fun alias_scan ::
  "string list \<Rightarrow> package list \<Rightarrow> string list \<times> package list \<Rightarrow> string list \<times> package list"
where
  \<comment> \<open>The inner loop \<open>for p in packages\<close> for one group \<open>k\<close>, left by \<open>break\<close> at the
      first match.\<close>
  "alias_scan k [] (alias_matches, result) = (alias_matches, result)"
| "alias_scan k (p # ps) (alias_matches, result) =
     (if fst p \<in> set k
      then (let aliases = map (\<lambda>x. (x, fst (snd p), snd (snd p))) (filter (\<lambda>x. x \<noteq> fst p) k)
            in (alias_matches @ map fst aliases, result @ aliases))
      else alias_scan k ps (alias_matches, result))"

fun alias_groups ::
  "string list list \<Rightarrow> package list \<Rightarrow> string list \<times> package list \<Rightarrow> string list \<times> package list"
where
  \<comment> \<open>The outer loop \<open>for k in known\<close>.\<close>
  "alias_groups [] packages acc = acc"
| "alias_groups (k # known) packages acc = alias_groups known packages (alias_scan k packages acc)"

definition get_alias_packages :: "package list \<Rightarrow> string list list \<Rightarrow> string list \<times> package list" where
  "get_alias_packages packages known = alias_groups known packages ([], [])"

text \<open>
  The expansion in the words of the specification, for one group: the first observation
  of the batch whose name belongs to the group yields one observation for each other name
  of the group, with its variant and version; a group without such an observation yields
  nothing.
\<close>

definition spec_expand_group :: "package list \<Rightarrow> string list \<Rightarrow> package list" where
  "spec_expand_group packages k =
     (case find (\<lambda>p. fst p \<in> set k) packages of
        None \<Rightarrow> []
      | Some p \<Rightarrow> map (\<lambda>x. (x, fst (snd p), snd (snd p))) (filter (\<lambda>x. x \<noteq> fst p) k))"

section \<open>Confidence, environment and session state\<close>

text \<open>
  Modelled from the spec: the constants \<open>CHECK_FAILURE\<close>, \<open>CHECK_UNLIKELY\<close>,
  \<open>CHECK_PROBABLY\<close> and \<open>CHECK_SUCCESS\<close> come from \<open>source.libs.define\<close>, which is not among
  the sources. The spec gives their order: FAILURE < UNLIKELY < PROBABLY < SUCCESS.
\<close>

datatype confidence = CHECK_FAILURE | CHECK_UNLIKELY | CHECK_PROBABLY | CHECK_SUCCESS

fun conf_rank :: "confidence \<Rightarrow> nat" where
  \<comment> \<open>Modelled from the spec: the position of a verdict in the order of the scale.\<close>
  "conf_rank CHECK_FAILURE = 0"
| "conf_rank CHECK_UNLIKELY = 1"
| "conf_rank CHECK_PROBABLY = 2"
| "conf_rank CHECK_SUCCESS = 3"

definition min_conf :: "confidence \<Rightarrow> confidence \<Rightarrow> confidence" where
  \<comment> \<open>Python's \<open>min(a, b)\<close>: the second argument only when it is strictly smaller.\<close>
  "min_conf a b = (if conf_rank b < conf_rank a then b else a)"

datatype log_level = Err | Warn | Info | Ok

datatype tb_value = TbPackages "package list" | TbText string

datatype property = PropertyInt int | PropertyText string

datatype py_error = TypeError | ValueError | ImportError

text \<open>
  What a module reads from outside the session: the helpers \<open>positive\<close> and \<open>negative\<close>
  (defined outside the sources, so left open), the probes of the filesystem backend
  \<open>io\<close>, whether \<open>urllib.request\<close> can be imported, the clock, the property table
  of the vulnerability database and the constant \<open>DB_ERROR\<close>, whose value is defined
  outside the sources. \<open>read_file\<close> yields \<open>None\<close> for \<open>IO_ERROR\<close>;
  \<open>get_file_info root path\<close> is the dictionary the backend returns, as a function of the
  key; \<open>days_since\<close> is \<open>(datetime.now() - datetime.strptime(text, '%Y-%m-%d')).days\<close>,
  \<open>None\<close> when \<open>strptime\<close> rejects the text with a ValueError.
\<close>

record 'db env =
  positive :: "string \<Rightarrow> bool"
  negative :: "string \<Rightarrow> bool"
  get_ssh_connection :: "string \<Rightarrow> unit option"
  get_file_info :: "string \<Rightarrow> string \<Rightarrow> string \<Rightarrow> string"
  get_system_type_from_active_root :: "string \<Rightarrow> string"
  can_read :: "string \<Rightarrow> string \<Rightarrow> bool"
  read_file :: "string \<Rightarrow> string \<Rightarrow> string option"
  can_import_urllib :: bool
  get_property :: "'db \<Rightarrow> string \<Rightarrow> property"
  DB_ERROR :: property
  days_since :: "string \<Rightarrow> int option"
  year_now :: nat

text \<open>
  The state the modules share: the Temporary Base \<open>tb\<close> with the history of the
  assignments made to it, the databases \<open>db\<close>, the lines handed to the logger,
  \<open>lib.modules[name].parameters[key].value\<close>, and the scheduler. The databases and the
  scheduler are outside the sources and stay abstract.
\<close>

record ('db, 'sch) session =
  tb :: "string \<rightharpoonup> tb_value"
  tb_writes :: "(string \<times> tb_value) list"
  db :: 'db
  log :: "(log_level \<times> string) list"
  parameters :: "string \<Rightarrow> string \<Rightarrow> string"
  scheduler :: 'sch

definition log_line :: "log_level \<Rightarrow> string \<Rightarrow> ('db, 'sch) session \<Rightarrow> ('db, 'sch) session" where
  "log_line level message s = s\<lparr>log := log s @ [(level, message)]\<rparr>"

definition log_unless :: "bool \<Rightarrow> log_level \<Rightarrow> string \<Rightarrow> ('db, 'sch) session \<Rightarrow> ('db, 'sch) session" where
  \<comment> \<open>\<open>if not silent: log.<level>(message)\<close>\<close>
  "log_unless silent level message s = (if silent then s else log_line level message s)"

definition set_parameter :: "string \<Rightarrow> string \<Rightarrow> string \<Rightarrow> ('db, 'sch) session \<Rightarrow> ('db, 'sch) session" where
  \<comment> \<open>\<open>lib.modules[name].parameters[key].value = v\<close>\<close>
  "set_parameter name key v s = s\<lparr>parameters := (parameters s)(name := (parameters s name)(key := v))\<rparr>"

definition tb_set :: "string \<Rightarrow> tb_value \<Rightarrow> ('db, 'sch) session \<Rightarrow> ('db, 'sch) session" where
  \<comment> \<open>\<open>tb[tag] = v\<close>\<close>
  "tb_set tag v s = s\<lparr>tb := (tb s)(tag \<mapsto> v), tb_writes := tb_writes s @ [(tag, v)]\<rparr>"

definition quoted :: "string \<Rightarrow> string" where
  "quoted x = [CHR 0x27] @ x @ [CHR 0x27]"

section \<open>analysis.iot: check\<close>

text \<open>
  \<open>ibe_check\<close> is the \<open>check\<close> of the module \<open>iot.binwalk.extract\<close>, which is outside
  the sources: it runs on the session and returns its verdict. The early
  \<open>return CHECK_FAILURE\<close> of the image branch is the \<open>Inl\<close> of the middle step.
\<close>

definition iot_check ::
  "'db env \<Rightarrow> (('db, 'sch) session \<Rightarrow> confidence \<times> ('db, 'sch) session) \<Rightarrow> bool option
     \<Rightarrow> ('db, 'sch) session \<Rightarrow> confidence \<times> ('db, 'sch) session"
where
  "iot_check e ibe_check silent_arg s =
     (let self = parameters s ''analysis.iot'';
          result = CHECK_PROBABLY;
          silent = (case silent_arg of None \<Rightarrow> positive e (self ''SILENT'') | Some b \<Rightarrow> b);
          method = self ''METHOD'';
          target = self ''TARGET'';
          activeroot = self ''ACTIVEROOT'';
          accuracy = self ''ACCURACY'';
          extract = self ''EXTRACT'';
          (result, s) =
            (if method \<notin> set [''local'', ''image'', ''ssh'']
             then (CHECK_FAILURE, log_unless silent Err (''Unsupported method '' @ quoted method) s)
             else (result, s));
          branch =
            (if method = ''image'' then
               (let s = set_parameter ''iot.binwalk.extract'' ''ACTIVEROOT''
                          (parameters s ''analysis.iot'' ''ACTIVEROOT'') s;
                    s = set_parameter ''iot.binwalk.extract'' ''BINFILE''
                          (parameters s ''analysis.iot'' ''TARGET'') s;
                    s = set_parameter ''iot.binwalk.extract'' ''TMPDIR''
                          (parameters s ''analysis.iot'' ''TMPDIR'') s;
                    (verdict, s) = ibe_check s;
                    result = min_conf result verdict
                in if \<not> (positive e extract \<or> negative e extract)
                   then Inl (CHECK_FAILURE, log_unless silent Err ''EXTRACT value is not valid.'' s)
                   else Inr (result, s))
             else if method = ''ssh'' then
               (if get_ssh_connection e target = None
                then Inr (CHECK_FAILURE,
                          log_unless silent Err (''Non-existent SSH connection '' @ quoted target) s)
                else Inr (result, s))
             else if method = ''local'' then
               (if get_file_info e activeroot target ''type'' \<noteq> ''d''
                then Inr (CHECK_FAILURE,
                          log_unless silent Err
                            (''Only folders can be analyzed with the '' @ quoted ''local'' @ '' method.'') s)
                else Inr (result, s))
             else Inr (result, s))
      in case branch of
           Inl returned \<Rightarrow> returned
         | Inr (result, s) \<Rightarrow>
             (if accuracy \<notin> set [''none'', ''major'', ''minor'', ''build'', ''full'']
              then (CHECK_FAILURE, log_unless silent Err (''Unsupported ACCURACY '' @ quoted accuracy) s)
              else (result, s)))"

section \<open>packages.dpkg.installed\<close>

definition startswith :: "string \<Rightarrow> string \<Rightarrow> bool" where
  \<comment> \<open>\<open>s.startswith(p)\<close>\<close>
  "startswith p s = (take (length p) s = p)"

fun contains :: "string \<Rightarrow> string \<Rightarrow> bool" where
  \<comment> \<open>\<open>sub in s\<close> on strings\<close>
  "contains sub [] = (sub = [])"
| "contains sub (c # cs) = (startswith sub (c # cs) \<or> contains sub cs)"

definition is_linebreak :: "char \<Rightarrow> bool" where
  \<comment> \<open>The line boundaries of \<open>str.splitlines\<close> below 256: LF, VT, FF, CR, FS, GS, RS, NEL.\<close>
  "is_linebreak c = ((of_char c :: nat) \<in> set [10, 11, 12, 13, 28, 29, 30, 133])"

fun splitlines_from :: "string \<Rightarrow> string \<Rightarrow> string list" where
  \<comment> \<open>\<open>splitlines\<close> with the line read so far; CR LF is one boundary, and a boundary at
      the very end opens no further line.\<close>
  "splitlines_from cur [] = (if cur = [] then [] else [cur])"
| "splitlines_from cur (c # cs) =
     (if is_linebreak c
      then cur # splitlines_from []
                   (if c = CHR 0x0D \<and> cs \<noteq> [] \<and> hd cs = CHR 0x0A then tl cs else cs)
      else splitlines_from (cur @ [c]) cs)"

definition splitlines :: "string \<Rightarrow> string list" where
  "splitlines s = splitlines_from [] s"

fun triples :: "'a list \<Rightarrow> 'a list list" where
  \<comment> \<open>\<open>list(zip(*[iter(xs)]*3))\<close>: consecutive groups of three, an incomplete last group
      dropped.\<close>
  "triples (a # b # c # xs) = [a, b, c] # triples xs"
| "triples _ = []"

fun digit_chr :: "nat \<Rightarrow> char" where
  "digit_chr n = char_of (48 + n)"

function str_nat :: "nat \<Rightarrow> string" where
  \<comment> \<open>\<open>str(n)\<close>, also \<open>'%d' % n\<close>, for a natural number\<close>
  "str_nat n = (if n < 10 then [digit_chr n] else str_nat (n div 10) @ [digit_chr (n mod 10)])"
  by pat_completeness auto
termination
  by (relation "measure id") auto

definition field_of :: "string \<Rightarrow> string list \<Rightarrow> string list" where
  \<comment> \<open>\<open>[x.partition(' ')[2] for x in entry if x.startswith(key)]\<close>\<close>
  "field_of key entry = map (\<lambda>x. snd (snd (partition_str CHR '' '' x))) (filter (startswith key) entry)"

fun dpkg_entries :: "string list list \<Rightarrow> package list \<Rightarrow> package list" where
  \<comment> \<open>The loop \<open>for entry in info\<close>; indexing an empty list raises IndexError, which
      the bare \<open>except\<close> turns into \<open>continue\<close>.\<close>
  "dpkg_entries [] results = results"
| "dpkg_entries (entry # info) results =
     (case field_of ''Package'' entry of
        [] \<Rightarrow> dpkg_entries info results
      | pkg # _ \<Rightarrow>
         (case field_of ''Version'' entry of
            [] \<Rightarrow> dpkg_entries info results
          | version # _ \<Rightarrow>
             (case field_of ''Status'' entry of
                [] \<Rightarrow> dpkg_entries info results
              | status # _ \<Rightarrow>
                 (if contains ''installed'' status
                  then dpkg_entries info (results @ [(pkg, None, version)])
                  else dpkg_entries info results))))"

definition dpkg_check ::
  "'db env \<Rightarrow> bool option \<Rightarrow> ('db, 'sch) session \<Rightarrow> confidence \<times> ('db, 'sch) session"
where
  "dpkg_check e silent_arg s =
     (let self = parameters s ''packages.dpkg.installed'';
          silent = (case silent_arg of None \<Rightarrow> positive e (self ''SILENT'') | Some b \<Rightarrow> b);
          activeroot = self ''ACTIVEROOT'';
          result = CHECK_SUCCESS;
          (result, s) =
            (if \<not> startswith ''lin'' (get_system_type_from_active_root e activeroot)
             then (CHECK_UNLIKELY,
                   log_unless silent Warn ''Target system does not belong to Linux family.'' s)
             else (result, s));
          (result, s) =
            (if \<not> can_read e activeroot ''/var/lib/dpkg/status''
             then (CHECK_FAILURE, log_unless silent Err ''Cannot open /var/lib/dpkg/status file.'' s)
             else (result, s))
      in (result, s))"

definition dpkg_run :: "'db env \<Rightarrow> ('db, 'sch) session \<Rightarrow> 'job option \<times> ('db, 'sch) session" where
  "dpkg_run e s =
     (let self = parameters s ''packages.dpkg.installed'';
          silent = positive e (self ''SILENT'');
          activeroot = self ''ACTIVEROOT'';
          tag = self ''TAG'';
          results = [];
          content = read_file e activeroot ''/var/lib/dpkg/status''
      in case content of
           None \<Rightarrow> (None, log_line Err ''Cannot read /var/lib/dpkg/status!'' s)
         | Some text \<Rightarrow>
            (let info = triples (filter (\<lambda>x. startswith ''Package'' x \<or> startswith ''Status'' x
                                                \<or> startswith ''Version'' x)
                                        (splitlines text));
                 results = dpkg_entries info results;
                 s = tb_set tag (TbPackages results) s;
                 s = log_unless silent Ok (str_nat (length results) @ '' packages revealed.'') s
             in (None, s)))"

section \<open>locasploit.update.vulnerabilities\<close>

definition luv_check ::
  "'db env \<Rightarrow> bool option \<Rightarrow> ('db, 'sch) session \<Rightarrow> confidence \<times> ('db, 'sch) session"
where
  \<comment> \<open>\<open>log.err\<close> receives the format string and two further positional arguments; the
      line recorded is the format string.\<close>
  "luv_check e silent_arg s =
     (let self = parameters s ''locasploit.update.vulnerabilities'';
          silent = (case silent_arg of None \<Rightarrow> positive e (self ''SILENT'') | Some b \<Rightarrow> b);
          result = CHECK_PROBABLY;
          silent = positive e (self ''SILENT'');
          (result, s) =
            (if \<not> positive e (self ''BACKGROUND'') \<and> \<not> negative e (self ''BACKGROUND'')
             then (CHECK_FAILURE, log_unless silent Err ''Bad %s value: %s.'' s)
             else (result, s));
          (result, s) =
            (if \<not> can_import_urllib e
             then (CHECK_FAILURE,
                   log_unless silent Err ''Cannot import urllib.request library (urllib5).'' s)
             else (result, s))
      in (result, s))"

record thread =
  thr_silent :: bool
  thr_terminate :: bool
  thr_background :: bool
  thr_started :: bool

definition Thread :: "bool \<Rightarrow> bool \<Rightarrow> thread" where
  \<comment> \<open>\<open>Thread.__init__\<close>: a thread object that has not been started.\<close>
  "Thread silent background =
     \<lparr>thr_silent = silent, thr_terminate = False, thr_background = background, thr_started = False\<rparr>"

definition start :: "thread \<Rightarrow> thread" where
  "start t = t\<lparr>thr_started := True\<rparr>"

definition str_int :: "int \<Rightarrow> string" where
  "str_int i = (if i < 0 then ''-'' @ str_nat (nat (- i)) else str_nat (nat i))"

fun str_property :: "property \<Rightarrow> string" where
  \<comment> \<open>what \<open>'%s' % value\<close> prints\<close>
  "str_property (PropertyInt i) = str_int i"
| "str_property (PropertyText t) = t"

datatype 'a arg = Default | Passed 'a

definition list_add :: "'a list option \<Rightarrow> 'a list option \<Rightarrow> py_error + 'a list" where
  \<comment> \<open>\<open>a + b\<close> on values that are lists or \<open>None\<close>\<close>
  "list_add a b =
     (case a of
        None \<Rightarrow> Inl TypeError
      | Some xs \<Rightarrow> (case b of None \<Rightarrow> Inl TypeError | Some ys \<Rightarrow> Inr (xs @ ys)))"

text \<open>
  The sub-modules and the scheduler are outside the sources. \<open>run_module name\<close> is
  \<open>lib.modules[name].run()\<close>: it runs on the session and returns a job or \<open>None\<close>.
  \<open>sched_add name job waitfor\<close> is \<open>lib.scheduler.add(name, time.time(), job, ...)\<close> with the
  \<open>waitfor\<close> argument as the call gives it (\<open>timeout\<close> is \<open>None\<close> wherever it is given);
  \<open>m.name\<close> is the name the module is registered under.
\<close>

definition thread_feeds ::
  "'db env \<Rightarrow> thread \<Rightarrow> ('db, 'sch) session \<Rightarrow> (py_error + unit) \<times> ('db, 'sch) session"
where
  \<comment> \<open>\<open>Thread.run\<close> from the import of \<open>urlretrieve\<close> to the line announcing the
      years; \<open>strptime\<close> raises TypeError on a value that is not text.\<close>
  "thread_feeds e self s =
     (if \<not> can_import_urllib e then (Inl ImportError, s) else
      let last = get_property e (db s) ''last_update'';
          s = log_line Info
                (''Last update: '' @ (if last = PropertyInt (- 1) then ''never'' else str_property last)) s;
          s = set_parameter ''locasploit.update.cve'' ''BACKGROUND''
                (if thr_background self then ''yes'' else ''no'') s;
          last_update = get_property e (db s) ''last_update'';
          recent =
            (if last_update \<noteq> DB_ERROR e
             then (case last_update of
                     PropertyInt i \<Rightarrow> Inl TypeError
                   | PropertyText t \<Rightarrow>
                       (case days_since e t of None \<Rightarrow> Inl ValueError | Some d \<Rightarrow> Inr (d < 8)))
             else Inr False)
      in case recent of
           Inl err \<Rightarrow> (Inl err, s)
         | Inr r \<Rightarrow>
            (let s =
                   (if r
                    then set_parameter ''locasploit.update.cve'' ''YEARS'' ''Modified''
                           (log_line Info
                              ''Entries have been updated less than 8 days ago, checking Modified feed only...'' s)
                    else set_parameter ''locasploit.update.cve'' ''YEARS''
                           (join_str '' '' (map str_nat [2002 ..< year_now e + 1]))
                           (log_line Info
                              ''Entries have been updated more than 8 days ago, checking all feeds for change...'' s));
                 s = log_line Info
                       (''Will update following years: '' @ parameters s ''locasploit.update.cve'' ''YEARS'') s
             in (Inr (), s)))"

definition submit ::
  "(string \<Rightarrow> 'job option \<Rightarrow> 'id list option arg \<Rightarrow> ('db, 'sch) session \<Rightarrow> 'id \<times> ('db, 'sch) session)
     \<Rightarrow> string \<Rightarrow> 'job option \<Rightarrow> 'id list option arg \<Rightarrow> ('db, 'sch) session
     \<Rightarrow> 'id list option \<times> ('db, 'sch) session"
where
  \<comment> \<open>\<open>None if job is None else [lib.scheduler.add(m.name, time.time(), job, ...)]\<close>\<close>
  "submit sched_add name job waitfor s =
     (case job of
        None \<Rightarrow> (None, s)
      | Some j \<Rightarrow> (let (i, s) = sched_add name (Some j) waitfor s in (Some [i], s)))"

definition thread_run ::
  "'db env \<Rightarrow> (string \<Rightarrow> ('db, 'sch) session \<Rightarrow> 'job option \<times> ('db, 'sch) session)
     \<Rightarrow> (string \<Rightarrow> 'job option \<Rightarrow> 'id list option arg \<Rightarrow> ('db, 'sch) session \<Rightarrow> 'id \<times> ('db, 'sch) session)
     \<Rightarrow> thread \<Rightarrow> ('db, 'sch) session \<Rightarrow> (py_error + unit) \<times> ('db, 'sch) session"
where
  \<comment> \<open>\<open>Thread.run\<close>: the result is the exception that ends the thread, or \<open>Inr ()\<close>.\<close>
  "thread_run e run_module sched_add self s =
     (if thr_terminate self then (Inr (), s)
      else
        (case thread_feeds e self s of
           (Inl err, s) \<Rightarrow> (Inl err, s)
         | (Inr _, s) \<Rightarrow>
            (let (job, s) = run_module ''locasploit.update.cve'' s;
                 (lucid, s) = submit sched_add ''locasploit.update.cve'' job Default s;
                 s = set_parameter ''locasploit.update.exploit'' ''BACKGROUND''
                       (if thr_background self then ''yes'' else ''no'') s;
                 (job, s) = run_module ''locasploit.update.exploit'' s;
                 (lue, s) = submit sched_add ''locasploit.update.exploit'' job (Passed lucid) s;
                 s = set_parameter ''locasploit.cleanup'' ''BACKGROUND''
                       (if thr_background self then ''yes'' else ''no'') s;
                 (job, s) = run_module ''locasploit.cleanup'' s
             in case list_add lucid lue of
                  Inl err \<Rightarrow> (Inl err, s)
                | Inr waitfor \<Rightarrow>
                    (let (i, s) = sched_add ''locasploit.cleanup'' job (Passed (Some waitfor)) s
                     in (Inr (), s)))))"

definition luv_run ::
  "'db env \<Rightarrow> (string \<Rightarrow> ('db, 'sch) session \<Rightarrow> 'job option \<times> ('db, 'sch) session)
     \<Rightarrow> (string \<Rightarrow> 'job option \<Rightarrow> 'id list option arg \<Rightarrow> ('db, 'sch) session \<Rightarrow> 'id \<times> ('db, 'sch) session)
     \<Rightarrow> ('db, 'sch) session \<Rightarrow> thread option \<times> ('db, 'sch) session"
where
  \<comment> \<open>\<open>Module.run\<close>. \<open>t.start(); t.join()\<close> runs the body of the thread to its end before
      \<open>run\<close> goes on; an exception that ends the thread does not reach the caller.\<close>
  "luv_run e run_module sched_add s =
     (let self = parameters s ''locasploit.update.vulnerabilities'';
          silent = positive e (self ''SILENT'');
          background = positive e (self ''BACKGROUND'');
          t = Thread silent background
      in if positive e (self ''BACKGROUND'') then (Some t, s)
         else (let (outcome, s) = thread_run e run_module sched_add (start t) s
               in (None, s)))"

section \<open>The verdicts a check aggregates\<close>

text \<open>
  The verdicts of the single preconditions of each \<open>check\<close>, in the order the source
  tests them, and their aggregation in the words of the specification: a fold with
  \<open>min\<close> from a starting value. The verdict of \<open>iot.binwalk.extract\<close> is the one its
  \<open>check\<close> returns on the session in which its three parameters have been set.
\<close>

definition iot_verdicts ::
  "'db env \<Rightarrow> (('db, 'sch) session \<Rightarrow> confidence \<times> ('db, 'sch) session) \<Rightarrow> ('db, 'sch) session
     \<Rightarrow> confidence list"
where
  "iot_verdicts e ibe_check s =
     (let self = parameters s ''analysis.iot'';
          method = self ''METHOD''
      in (if method \<notin> set [''local'', ''image'', ''ssh''] then [CHECK_FAILURE] else [])
         @ (if method = ''image'' then
              [fst (ibe_check
                      (set_parameter ''iot.binwalk.extract'' ''TMPDIR'' (self ''TMPDIR'')
                         (set_parameter ''iot.binwalk.extract'' ''BINFILE'' (self ''TARGET'')
                            (set_parameter ''iot.binwalk.extract'' ''ACTIVEROOT'' (self ''ACTIVEROOT'') s))))]
              @ (if \<not> (positive e (self ''EXTRACT'') \<or> negative e (self ''EXTRACT''))
                 then [CHECK_FAILURE] else [])
            else if method = ''ssh'' then
              (if get_ssh_connection e (self ''TARGET'') = None then [CHECK_FAILURE] else [])
            else if method = ''local'' then
              (if get_file_info e (self ''ACTIVEROOT'') (self ''TARGET'') ''type'' \<noteq> ''d''
               then [CHECK_FAILURE] else [])
            else [])
         @ (if self ''ACCURACY'' \<notin> set [''none'', ''major'', ''minor'', ''build'', ''full'']
            then [CHECK_FAILURE] else []))"

definition dpkg_verdicts :: "'db env \<Rightarrow> ('db, 'sch) session \<Rightarrow> confidence list" where
  "dpkg_verdicts e s =
     (let activeroot = parameters s ''packages.dpkg.installed'' ''ACTIVEROOT''
      in (if \<not> startswith ''lin'' (get_system_type_from_active_root e activeroot)
          then [CHECK_UNLIKELY] else [])
         @ (if \<not> can_read e activeroot ''/var/lib/dpkg/status'' then [CHECK_FAILURE] else []))"

definition luv_verdicts :: "'db env \<Rightarrow> ('db, 'sch) session \<Rightarrow> confidence list" where
  "luv_verdicts e s =
     (let background = parameters s ''locasploit.update.vulnerabilities'' ''BACKGROUND''
      in (if \<not> positive e background \<and> \<not> negative e background then [CHECK_FAILURE] else [])
         @ (if \<not> can_import_urllib e then [CHECK_FAILURE] else []))"

definition aggregate :: "confidence \<Rightarrow> confidence list \<Rightarrow> confidence" where
  "aggregate initial verdicts = fold (\<lambda>verdict result. min_conf result verdict) verdicts initial"

section \<open>A concrete session\<close>

text \<open>
  The values \<open>reset_parameters\<close> gives the three modules (a parameter declared without a
  value reads as the empty string), an environment on which every probe succeeds, a
  scheduler that lists what is registered and numbers the jobs in order, and sub-modules
  that return a job exactly when their BACKGROUND parameter is \<open>yes\<close>.
\<close>

definition reset_parameters :: "string \<Rightarrow> string \<Rightarrow> string" where
  "reset_parameters name key =
     (if name = ''analysis.iot'' then
        (if key = ''SILENT'' then ''no'' else if key = ''ACCURACY'' then ''build''
         else if key = ''EXTRACT'' then ''yes'' else if key = ''EPOCH'' then ''no''
         else if key = ''ALIASES'' then ''yes'' else [])
      else if name = ''packages.dpkg.installed'' then
        (if key = ''SILENT'' then ''no'' else [])
      else if name = ''locasploit.update.vulnerabilities'' then
        (if key = ''SILENT'' then ''no'' else if key = ''BACKGROUND'' then ''yes'' else [])
      else [])"

definition example_status :: string where
  "example_status =
     ''Package: bash'' @ [CHR 0x0A] @ ''Status: install ok installed'' @ [CHR 0x0A]
     @ ''Priority: required'' @ [CHR 0x0A] @ ''Version: 4.3-14'' @ [CHR 0x0A]
     @ ''Package: nano'' @ [CHR 0x0A] @ ''Status: deinstall ok config-files'' @ [CHR 0x0A]
     @ ''Version: 2.2.6-3'' @ [CHR 0x0A]"

definition example_env :: "unit env" where
  "example_env =
     \<lparr>positive = (\<lambda>v. v \<in> set [''yes'', ''y'', ''true'']),
      negative = (\<lambda>v. v \<in> set [''no'', ''n'', ''false'']),
      get_ssh_connection = (\<lambda>target. None),
      get_file_info = (\<lambda>root path key. ''d''),
      get_system_type_from_active_root = (\<lambda>root. ''linux''),
      can_read = (\<lambda>root path. True),
      read_file = (\<lambda>root path. Some example_status),
      can_import_urllib = True,
      get_property = (\<lambda>d key. PropertyText ''2016-10-25''),
      DB_ERROR = PropertyInt (- 1),
      days_since = (\<lambda>text. Some 3),
      year_now = 2016\<rparr>"

definition example_session :: "(unit, (string \<times> nat list option arg) list) session" where
  "example_session =
     \<lparr>tb = Map.empty, tb_writes = [], db = (), log = [],
      parameters = reset_parameters, scheduler = []\<rparr>"

definition example_add ::
  "string \<Rightarrow> string option \<Rightarrow> nat list option arg \<Rightarrow> (unit, (string \<times> nat list option arg) list) session
     \<Rightarrow> nat \<times> (unit, (string \<times> nat list option arg) list) session"
where
  "example_add name job waitfor s =
     (length (scheduler s), s\<lparr>scheduler := scheduler s @ [(name, waitfor)]\<rparr>)"

definition example_run ::
  "string \<Rightarrow> (unit, (string \<times> nat list option arg) list) session
     \<Rightarrow> string option \<times> (unit, (string \<times> nat list option arg) list) session"
where
  "example_run name s = (if parameters s name ''BACKGROUND'' = ''yes'' then Some name else None, s)"

definition example_ibe_check ::
  "(unit, (string \<times> nat list option arg) list) session
     \<Rightarrow> confidence \<times> (unit, (string \<times> nat list option arg) list) session"
where
  "example_ibe_check s = (CHECK_SUCCESS, log_line Info ''binwalk is present'' s)"

section \<open>Version accuracy: properties\<close>

text \<open>
  C1. The version \<open>0.9.8j-r13.0.4\<close>, with the epoch ignored, is cut to \<open>0\<close> at accuracy
  major, to \<open>0.9\<close> at accuracy minor and to \<open>0.9.8j\<close> at accuracy build.
\<close>

theorem get_accurate_version_example:
  "get_accurate_version ''major'' ''0.9.8j-r13.0.4'' False = ''0''
   \<and> get_accurate_version ''minor'' ''0.9.8j-r13.0.4'' False = ''0.9''
   \<and> get_accurate_version ''build'' ''0.9.8j-r13.0.4'' False = ''0.9.8j''"
  by (simp add: get_accurate_version_def partition_str_def isdigit_def isdigit_chr_def Let_def)

lemma fst_partition_str: "fst (partition_str c s) = takeWhile (\<lambda>x. x \<noteq> c) s"
proof (cases "c \<in> set s")
  case True
  then show ?thesis by (simp add: partition_str_def)
next
  case False
  then have tw: "takeWhile (\<lambda>x. x \<noteq> c) s = s" by (induction s) auto
  from False have "fst (partition_str c s) = s" by (simp add: partition_str_def)
  then show ?thesis by (simp only: tw)
qed

lemma partition_str_split:
  "c \<notin> set a \<Longrightarrow> partition_str c (a @ c # b) = (a, [c], b)"
  by (induction a) (auto simp: partition_str_def)

lemma partition_str_absent:
  "c \<notin> set s \<Longrightarrow> partition_str c s = (s, [], [])"
  by (simp add: partition_str_def)

lemma replace_chr_absent: "a \<notin> set s \<Longrightarrow> replace_chr a b s = s"
  by (induction s) (auto simp: replace_chr_def)

lemma replace_chr_append: "replace_chr a b (s @ t) = replace_chr a b s @ replace_chr a b t"
  by (simp add: replace_chr_def)

lemma replace_chr_removes: "a \<noteq> b \<Longrightarrow> a \<notin> set (replace_chr a b s)"
  by (auto simp: replace_chr_def)

text \<open>
  C2. A version whose major component is not purely numeric should come back whole at
  the accuracies major, minor and build. The version \<open>abc.1.2\<close> is cut to \<open>abc.1\<close> at
  accuracy minor, and \<open>abc.1.2.3\<close> to \<open>abc.1.2\<close> at accuracy build: only the major
  level tests the major component.
\<close>

theorem non_numeric_major_minor_accuracy:
  "\<not> isdigit (fst (partition_str CHR ''.'' ''abc.1.2''))
   \<and> get_accurate_version ''full'' ''abc.1.2'' False = ''abc.1.2''
   \<and> get_accurate_version ''minor'' ''abc.1.2'' False = ''abc.1''
   \<and> get_accurate_version ''build'' ''abc.1.2.3'' False = ''abc.1.2''"
  by (simp add: get_accurate_version_def partition_str_def isdigit_def isdigit_chr_def Let_def)

text \<open>
  C5. At accuracy build, when the version after the epoch step is
  \<open>major.minor.rest\<close> with a numeric major component, a minor component and a build
  component (the part of \<open>rest\<close> before its first period), the result is the major and
  minor components as they stand, joined with the build component cut at its first hyphen.
  For \<open>1.2-x.3\<close> this gives \<open>1.2-x.3\<close>, while accuracy minor gives \<open>1.2\<close>.
\<close>

theorem build_accuracy_assembly:
  assumes "get_accurate_version ''full'' version use_epoch = major @ ''.'' @ minor @ ''.'' @ rest"
    and "CHR ''.'' \<notin> set major" and "CHR ''.'' \<notin> set minor"
    and "isdigit major" and "minor \<noteq> []"
    and "build = takeWhile (\<lambda>c. c \<noteq> CHR ''.'') rest" and "build \<noteq> []"
  shows "get_accurate_version ''build'' version use_epoch
           = major @ ''.'' @ minor @ ''.'' @ takeWhile (\<lambda>c. c \<noteq> CHR ''-'') build
         \<and> get_accurate_version ''build'' ''1.2-x.3'' False = ''1.2-x.3''
         \<and> get_accurate_version ''minor'' ''1.2-x.3'' False = ''1.2''"
proof -
  define v where "v = (if use_epoch then replace_chr CHR '':'' CHR ''.'' version
             else if CHR '':'' \<in> set version
                  then snd (snd (partition_str CHR '':'' version))
                  else version)"
  have v: "v = major @ CHR ''.'' # minor @ CHR ''.'' # rest"
    using assms(1) by (simp add: get_accurate_version_def v_def)
  have p1: "partition_str CHR ''.'' v = (major, ''.'', minor @ CHR ''.'' # rest)"
    unfolding v using assms(2) by (rule partition_str_split)
  have p2: "partition_str CHR ''.'' (minor @ CHR ''.'' # rest) = (minor, ''.'', rest)"
    using assms(3) by (rule partition_str_split)
  have "get_accurate_version ''build'' version use_epoch
           = major @ ''.'' @ minor @ ''.'' @ takeWhile (\<lambda>c. c \<noteq> CHR ''-'') build"
    using assms(6,7)
    by (simp add: get_accurate_version_def v_def [symmetric] p1 p2 fst_partition_str Let_def)
  moreover have "get_accurate_version ''build'' ''1.2-x.3'' False = ''1.2-x.3''
         \<and> get_accurate_version ''minor'' ''1.2-x.3'' False = ''1.2''"
    by (simp add: get_accurate_version_def partition_str_def isdigit_def isdigit_chr_def Let_def)
  ultimately show ?thesis by simp
qed

theorem build_accuracy_assembly_witness:
  "get_accurate_version ''full'' ''1:10.2-x.3-r1.7'' False = ''10'' @ ''.'' @ ''2-x'' @ ''.'' @ ''3-r1.7''
   \<and> CHR ''.'' \<notin> set ''10'' \<and> CHR ''.'' \<notin> set ''2-x'' \<and> isdigit ''10'' \<and> ''2-x'' \<noteq> []
   \<and> ''3-r1'' = takeWhile (\<lambda>c. c \<noteq> CHR ''.'') ''3-r1.7''
   \<and> get_accurate_version ''build'' ''1:10.2-x.3-r1.7'' False = ''10.2-x.3''"
  using build_accuracy_assembly [of "''1:10.2-x.3-r1.7''" False "''10''" "''2-x''" "''3-r1.7''" "''3-r1''"]
  by (simp add: get_accurate_version_def partition_str_def isdigit_def isdigit_chr_def)

text \<open>
  C6. For a version \<open>epoch:rest\<close>: with the epoch in use the colon becomes a period (as
  does every further colon of \<open>rest\<close>), without it everything up to and including the
  colon is dropped; accuracy full returns that string, and every other accuracy cuts that
  string. So \<open>2:1.0\<close> gives \<open>2.1.0\<close> with the epoch and \<open>1.0\<close> without.
\<close>

theorem epoch_fold:
  assumes "CHR '':'' \<notin> set epoch"
  shows "get_accurate_version ''full'' (epoch @ '':'' @ rest) True
           = epoch @ ''.'' @ replace_chr CHR '':'' CHR ''.'' rest
       \<and> get_accurate_version ''full'' (epoch @ '':'' @ rest) False = rest
       \<and> (CHR '':'' \<notin> set rest \<longrightarrow>
            get_accurate_version ''full'' (epoch @ '':'' @ rest) True = epoch @ ''.'' @ rest
          \<and> get_accurate_version accuracy (epoch @ '':'' @ rest) True
              = get_accurate_version accuracy (epoch @ ''.'' @ rest) True
          \<and> get_accurate_version accuracy (epoch @ '':'' @ rest) False
              = get_accurate_version accuracy rest False)
       \<and> get_accurate_version ''full'' ''2:1.0'' True = ''2.1.0''
       \<and> get_accurate_version ''full'' ''2:1.0'' False = ''1.0''"
proof -
  have r: "replace_chr CHR '':'' CHR ''.'' (epoch @ CHR '':'' # rest)
             = epoch @ CHR ''.'' # replace_chr CHR '':'' CHR ''.'' rest"
    using assms by (simp add: replace_chr_append replace_chr_absent) (simp add: replace_chr_def)
  have p: "partition_str CHR '':'' (epoch @ CHR '':'' # rest) = (epoch, '':'', rest)"
    using assms by (rule partition_str_split)
  have a: "get_accurate_version ''full'' (epoch @ '':'' @ rest) True
           = epoch @ ''.'' @ replace_chr CHR '':'' CHR ''.'' rest"
    by (simp add: get_accurate_version_def r)
  have b: "get_accurate_version ''full'' (epoch @ '':'' @ rest) False = rest"
    by (simp add: get_accurate_version_def p)
  have c: "get_accurate_version accuracy (epoch @ '':'' @ rest) True
              = get_accurate_version accuracy (epoch @ ''.'' @ rest) True"
    if "CHR '':'' \<notin> set rest"
  proof -
    have r1: "replace_chr CHR '':'' CHR ''.'' (epoch @ CHR '':'' # rest) = epoch @ CHR ''.'' # rest"
      using that by (simp add: r replace_chr_absent)
    have r2: "replace_chr CHR '':'' CHR ''.'' (epoch @ CHR ''.'' # rest) = epoch @ CHR ''.'' # rest"
      using that assms by (simp add: replace_chr_absent)
    show ?thesis by (simp add: get_accurate_version_def r1 r2)
  qed
  have d: "get_accurate_version accuracy (epoch @ '':'' @ rest) False
              = get_accurate_version accuracy rest False"
    if "CHR '':'' \<notin> set rest"
    using that by (simp add: get_accurate_version_def p)
  have e: "get_accurate_version ''full'' ''2:1.0'' True = ''2.1.0''
       \<and> get_accurate_version ''full'' ''2:1.0'' False = ''1.0''"
    by (simp add: get_accurate_version_def partition_str_def replace_chr_def)
  show ?thesis using a b c d e by (simp add: replace_chr_absent)
qed

theorem epoch_fold_witness:
  "CHR '':'' \<notin> set ''12'' \<and> CHR '':'' \<notin> set ''3.4.5''
   \<and> get_accurate_version ''minor'' ''12:3.4.5'' True = ''12.3''
   \<and> get_accurate_version ''minor'' ''12:3.4.5'' False = ''3.4''
   \<and> get_accurate_version ''full'' ''12:3.4.5'' True = ''12.3.4.5''
   \<and> get_accurate_version ''full'' ''12:3.4.5'' False = ''3.4.5''"
  using epoch_fold [of "''12''" "''3.4.5''" "''minor''"]
  by (simp add: get_accurate_version_def partition_str_def replace_chr_def isdigit_def isdigit_chr_def)

section \<open>Alias expansion: properties\<close>

lemma alias_scan_find:
  "alias_scan k packages (am, res)
     = (am @ map fst (spec_expand_group packages k), res @ spec_expand_group packages k)"
  by (induction packages) (simp_all add: spec_expand_group_def)

lemma alias_groups_concat:
  "alias_groups known packages (am, res)
     = (am @ map fst (concat (map (spec_expand_group packages) known)),
        res @ concat (map (spec_expand_group packages) known))"
  by (induction known arbitrary: am res) (simp_all add: alias_scan_find)

lemma length_filter_other:
  "distinct k \<Longrightarrow> n \<in> set k \<Longrightarrow> length (filter (\<lambda>x. x \<noteq> n) k) = length k - 1"
proof (induction k)
  case Nil
  then show ?case by simp
next
  case (Cons a k)
  show ?case
  proof (cases "a = n")
    case True
    with Cons.prems have "n \<notin> set k" by simp
    then have "filter (\<lambda>x. x \<noteq> n) k = k" by (induction k) auto
    with True show ?thesis by simp
  next
    case False
    with Cons.prems have "n \<in> set k" and "distinct k" by auto
    with Cons.IH have "length (filter (\<lambda>x. x \<noteq> n) k) = length k - 1" by simp
    moreover from \<open>n \<in> set k\<close> have "0 < length k" by (rule length_pos_if_in_set)
    ultimately show ?thesis using False by simp
  qed
qed

text \<open>
  C4. Alias expansion yields, group by group, what the first observation of the batch
  with a name in the group gives: one observation for each other name of the group, with
  that observation's variant and version, and the names of these observations for the
  report. Observations after the first match add nothing for the group.
\<close>

theorem get_alias_packages_first_match:
  "get_alias_packages packages known
     = (map fst (concat (map (spec_expand_group packages) known)),
        concat (map (spec_expand_group packages) known))
   \<and> (fst p \<in> set k \<longrightarrow>
        get_alias_packages (p # later) [k] = get_alias_packages [p] [k]
        \<and> snd (get_alias_packages (p # later) [k])
            = map (\<lambda>x. (x, fst (snd p), snd (snd p))) (filter (\<lambda>x. x \<noteq> fst p) k)
        \<and> (distinct k \<longrightarrow> length (snd (get_alias_packages (p # later) [k])) = length k - 1))"
  by (simp add: get_alias_packages_def alias_groups_concat spec_expand_group_def length_filter_other)

theorem get_alias_packages_first_match_witness:
  "fst (''kernel'', None, ''4.4'') \<in> set [''kernel'', ''linux_kernel'']
   \<and> distinct [''kernel'', ''linux_kernel'']
   \<and> get_alias_packages [(''kernel'', None, ''4.4''), (''kernel'', None, ''3.2'')]
         [[''kernel'', ''linux_kernel'']]
       = ([''linux_kernel''], [(''linux_kernel'', None, ''4.4'')])"
  using get_alias_packages_first_match
          [of "[(''kernel'', None, ''4.4''), (''kernel'', None, ''3.2'')]"
              "[[''kernel'', ''linux_kernel'']]" "(''kernel'', None, ''4.4'')"
              "[''kernel'', ''linux_kernel'']" "[(''kernel'', None, ''3.2'')]"]
  by (simp add: spec_expand_group_def)

section \<open>Checks: verdicts and frame\<close>

lemma parameters_log_unless [simp]: "parameters (log_unless b l m s) = parameters s"
  by (simp add: log_unless_def log_line_def)

lemma parameters_set_parameter:
  "parameters (set_parameter n k v s) = (parameters s)(n := (parameters s n)(k := v))"
  by (simp add: set_parameter_def)

lemma min_conf_failure [simp]: "min_conf r CHECK_FAILURE = CHECK_FAILURE"
  by (cases r) (simp_all add: min_conf_def)

lemma min_conf_failure_left [simp]: "min_conf CHECK_FAILURE r = CHECK_FAILURE"
  by (cases r) (simp_all add: min_conf_def)

lemma min_conf_probably: "conf_rank (min_conf CHECK_PROBABLY r) \<le> 2"
  by (cases r) (simp_all add: min_conf_def)

lemma iot_check_verdict:
  "fst (iot_check e ibe_check silent s) = aggregate CHECK_PROBABLY (iot_verdicts e ibe_check s)"
proof -
  consider (image) "parameters s ''analysis.iot'' ''METHOD'' = ''image''"
    | (ssh) "parameters s ''analysis.iot'' ''METHOD'' = ''ssh''"
    | (local) "parameters s ''analysis.iot'' ''METHOD'' = ''local''"
    | (other) "parameters s ''analysis.iot'' ''METHOD'' \<notin> set [''local'', ''image'', ''ssh'']"
    by auto
  then show ?thesis
  proof cases
    case image
    then show ?thesis
      by (simp add: iot_check_def iot_verdicts_def aggregate_def Let_def split_beta
            parameters_set_parameter)
  next
    case ssh
    then show ?thesis
      by (simp add: iot_check_def iot_verdicts_def aggregate_def Let_def)
  next
    case local
    then show ?thesis
      by (simp add: iot_check_def iot_verdicts_def aggregate_def Let_def)
  next
    case other
    then show ?thesis
      by (simp add: iot_check_def iot_verdicts_def aggregate_def Let_def)
  qed
qed

lemma dpkg_check_verdict:
  "fst (dpkg_check e silent s) = aggregate CHECK_SUCCESS (dpkg_verdicts e s)"
  by (simp add: dpkg_check_def dpkg_verdicts_def aggregate_def Let_def split_beta min_conf_def)

lemma luv_check_verdict:
  "fst (luv_check e silent s) = aggregate CHECK_PROBABLY (luv_verdicts e s)"
  by (simp add: luv_check_def luv_verdicts_def aggregate_def Let_def split_beta)

lemma aggregate_le: "conf_rank (aggregate initial verdicts) \<le> conf_rank initial"
  unfolding aggregate_def
proof (induction verdicts arbitrary: initial)
  case Nil
  then show ?case by simp
next
  case (Cons v vs)
  have "conf_rank (min_conf initial v) \<le> conf_rank initial" by (simp add: min_conf_def)
  with Cons.IH [of "min_conf initial v"] show ?case by simp
qed

lemma Min_insert_min:
  "finite S \<Longrightarrow> Min (insert (min a b) S) = min (a::nat) (Min (insert b S))"
  by (cases "S = {}") (simp_all add: min.assoc)

lemma aggregate_min:
  "conf_rank (aggregate initial verdicts) = Min (conf_rank ` set (initial # verdicts))"
  unfolding aggregate_def
proof (induction verdicts arbitrary: initial)
  case Nil
  then show ?case by simp
next
  case (Cons v vs)
  have "conf_rank (min_conf initial v) = min (conf_rank initial) (conf_rank v)"
    by (simp add: min_conf_def)
  with Cons.IH [of "min_conf initial v"] show ?case
    by (simp add: Min_insert_min)
qed

text \<open>
  C3 as stated fails for \<open>packages.dpkg.installed\<close>: on a readable Linux root its check
  returns \<open>CHECK_SUCCESS\<close>, which is above \<open>CHECK_PROBABLY\<close>.
\<close>

theorem dpkg_check_exceeds_probably:
  "fst (dpkg_check example_env None example_session) = CHECK_SUCCESS
   \<and> \<not> conf_rank (fst (dpkg_check example_env None example_session)) \<le> conf_rank CHECK_PROBABLY"
  by (simp add: dpkg_check_def example_env_def example_session_def reset_parameters_def
        startswith_def log_unless_def)

text \<open>
  C3, amended. The checks of \<open>analysis.iot\<close> and \<open>locasploit.update.vulnerabilities\<close>
  return the minimum of \<open>CHECK_PROBABLY\<close> and the verdicts of their preconditions, hence
  never more than \<open>CHECK_PROBABLY\<close>; the check of \<open>packages.dpkg.installed\<close> returns the
  minimum of \<open>CHECK_SUCCESS\<close> and the verdicts of its two preconditions.
\<close>

theorem check_aggregates_verdicts:
  "fst (iot_check e ibe_check silent s) = aggregate CHECK_PROBABLY (iot_verdicts e ibe_check s)
   \<and> conf_rank (fst (iot_check e ibe_check silent s))
       = Min (conf_rank ` set (CHECK_PROBABLY # iot_verdicts e ibe_check s))
   \<and> conf_rank (fst (iot_check e ibe_check silent s)) \<le> conf_rank CHECK_PROBABLY
   \<and> fst (luv_check e silent s) = aggregate CHECK_PROBABLY (luv_verdicts e s)
   \<and> conf_rank (fst (luv_check e silent s)) \<le> conf_rank CHECK_PROBABLY
   \<and> fst (dpkg_check e silent s) = aggregate CHECK_SUCCESS (dpkg_verdicts e s)
   \<and> conf_rank (fst (dpkg_check e silent s))
       = Min (conf_rank ` set (CHECK_SUCCESS # dpkg_verdicts e s))"
  using aggregate_le [of CHECK_PROBABLY "iot_verdicts e ibe_check s"]
        aggregate_le [of CHECK_PROBABLY "luv_verdicts e s"]
  by (simp only: iot_check_verdict dpkg_check_verdict luv_check_verdict aggregate_min simp_thms)

theorem check_aggregates_verdicts_witness:
  "fst (iot_check example_env example_ibe_check None
          (set_parameter ''analysis.iot'' ''METHOD'' ''image'' example_session)) = CHECK_PROBABLY
   \<and> fst (iot_check example_env example_ibe_check None example_session) = CHECK_FAILURE
   \<and> fst (luv_check example_env None example_session) = CHECK_PROBABLY
   \<and> fst (dpkg_check (example_env\<lparr>can_read := (\<lambda>root path. False)\<rparr>) None example_session)
       = CHECK_FAILURE"
  using check_aggregates_verdicts
          [of example_env example_ibe_check None
              "set_parameter ''analysis.iot'' ''METHOD'' ''image'' example_session"]
        check_aggregates_verdicts [of example_env example_ibe_check None example_session]
        check_aggregates_verdicts
          [of "example_env\<lparr>can_read := (\<lambda>root path. False)\<rparr>" example_ibe_check None example_session]
  by (simp add: aggregate_def iot_verdicts_def luv_verdicts_def dpkg_verdicts_def min_conf_def
        example_env_def example_session_def example_ibe_check_def reset_parameters_def
        set_parameter_def startswith_def log_line_def)

lemma frame_log_unless [simp]:
  "tb (log_unless b l m s) = tb s" "tb_writes (log_unless b l m s) = tb_writes s"
  "db (log_unless b l m s) = db s"
  by (simp_all add: log_unless_def log_line_def)

lemma frame_log_line [simp]:
  "tb (log_line l m s) = tb s" "tb_writes (log_line l m s) = tb_writes s"
  "db (log_line l m s) = db s"
  by (simp_all add: log_line_def)

lemma frame_set_parameter [simp]:
  "tb (set_parameter n k v s) = tb s" "tb_writes (set_parameter n k v s) = tb_writes s"
  "db (set_parameter n k v s) = db s"
  by (simp_all add: set_parameter_def)

lemma iot_check_frame:
  assumes "\<forall>s. tb (snd (ibe_check s)) = tb s \<and> tb_writes (snd (ibe_check s)) = tb_writes s
              \<and> db (snd (ibe_check s)) = db s"
  shows "tb (snd (iot_check e ibe_check silent s)) = tb s
         \<and> tb_writes (snd (iot_check e ibe_check silent s)) = tb_writes s
         \<and> db (snd (iot_check e ibe_check silent s)) = db s"
proof -
  consider (image) "parameters s ''analysis.iot'' ''METHOD'' = ''image''"
    | (ssh) "parameters s ''analysis.iot'' ''METHOD'' = ''ssh''"
    | (local) "parameters s ''analysis.iot'' ''METHOD'' = ''local''"
    | (other) "parameters s ''analysis.iot'' ''METHOD'' \<notin> set [''local'', ''image'', ''ssh'']"
    by auto
  then show ?thesis
  proof cases
    case image
    then show ?thesis using assms
      by (simp add: iot_check_def Let_def split_beta)
  next
    case ssh
    then show ?thesis by (simp add: iot_check_def Let_def)
  next
    case local
    then show ?thesis by (simp add: iot_check_def Let_def)
  next
    case other
    then show ?thesis by (simp add: iot_check_def Let_def)
  qed
qed

lemma dpkg_check_frame:
  "tb (snd (dpkg_check e silent s)) = tb s
   \<and> tb_writes (snd (dpkg_check e silent s)) = tb_writes s
   \<and> db (snd (dpkg_check e silent s)) = db s"
  by (simp add: dpkg_check_def Let_def)

lemma luv_check_frame:
  "tb (snd (luv_check e silent s)) = tb s
   \<and> tb_writes (snd (luv_check e silent s)) = tb_writes s
   \<and> db (snd (luv_check e silent s)) = db s"
  by (simp add: luv_check_def Let_def)

text \<open>
  C9. The checks of \<open>analysis.iot\<close>, \<open>packages.dpkg.installed\<close> and
  \<open>locasploit.update.vulnerabilities\<close> leave the Temporary Base, the history of its
  assignments and the databases as they were, for every parameter valuation and every
  environment, provided the check of \<open>iot.binwalk.extract\<close> (which \<open>analysis.iot\<close> calls
  and which is outside the sources) leaves them as they were.
\<close>

theorem check_frame:
  assumes "\<forall>s. tb (snd (ibe_check s)) = tb s \<and> tb_writes (snd (ibe_check s)) = tb_writes s
              \<and> db (snd (ibe_check s)) = db s"
  shows "tb (snd (iot_check e ibe_check silent s)) = tb s
         \<and> tb_writes (snd (iot_check e ibe_check silent s)) = tb_writes s
         \<and> db (snd (iot_check e ibe_check silent s)) = db s
         \<and> tb (snd (dpkg_check e silent s)) = tb s
         \<and> tb_writes (snd (dpkg_check e silent s)) = tb_writes s
         \<and> db (snd (dpkg_check e silent s)) = db s
         \<and> tb (snd (luv_check e silent s)) = tb s
         \<and> tb_writes (snd (luv_check e silent s)) = tb_writes s
         \<and> db (snd (luv_check e silent s)) = db s"
  using iot_check_frame [OF assms, of e silent s] dpkg_check_frame [of e silent s]
        luv_check_frame [of e silent s]
  by simp

theorem check_frame_witness:
  "(\<forall>s. tb (snd (example_ibe_check s)) = tb s \<and> tb_writes (snd (example_ibe_check s)) = tb_writes s
        \<and> db (snd (example_ibe_check s)) = db s)
   \<and> tb (snd (iot_check example_env example_ibe_check None
                 (set_parameter ''analysis.iot'' ''METHOD'' ''image''
                    (tb_set ''fw_accuracy'' (TbText ''build'') example_session))))
       = [''fw_accuracy'' \<mapsto> TbText ''build'']
   \<and> log (snd (iot_check example_env example_ibe_check None
                  (set_parameter ''analysis.iot'' ''METHOD'' ''image''
                     (tb_set ''fw_accuracy'' (TbText ''build'') example_session))))
       = [(Info, ''binwalk is present'')]"
proof -
  have h: "\<forall>s. tb (snd (example_ibe_check s)) = tb s
             \<and> tb_writes (snd (example_ibe_check s)) = tb_writes s
             \<and> db (snd (example_ibe_check s)) = db s"
    by (simp add: example_ibe_check_def)
  have l: "log (snd (iot_check example_env example_ibe_check None
                  (set_parameter ''analysis.iot'' ''METHOD'' ''image''
                     (tb_set ''fw_accuracy'' (TbText ''build'') example_session))))
       = [(Info, ''binwalk is present'')]"
    by (simp add: iot_check_def example_env_def example_session_def example_ibe_check_def
          reset_parameters_def set_parameter_def tb_set_def log_line_def log_unless_def min_conf_def
          Let_def)
  show ?thesis
    using h l check_frame [OF h, of example_env None
            "set_parameter ''analysis.iot'' ''METHOD'' ''image''
               (tb_set ''fw_accuracy'' (TbText ''build'') example_session)"]
    by (simp add: tb_set_def example_session_def)
qed

section \<open>packages.dpkg.installed: what run writes\<close>

text \<open>
  C8. When reading \<open>/var/lib/dpkg/status\<close> gives \<open>IO_ERROR\<close>, \<open>run\<close> of
  \<open>packages.dpkg.installed\<close> logs an error (the log grows by exactly the line
  \<open>Cannot read /var/lib/dpkg/status!\<close> at level error, whatever SILENT says), returns
  \<open>None\<close> and assigns nothing to the Temporary Base. When the read succeeds, it returns
  \<open>None\<close> after exactly one assignment to the Temporary Base: the whole list of installed
  packages, under the tag; the log then grows by the count of packages unless SILENT is
  positive, and by no error line.
\<close>

theorem dpkg_run_tb_write:
  fixes e :: "'db env" and s :: "('db, 'sch) session"
  shows
  "(read_file e (parameters s ''packages.dpkg.installed'' ''ACTIVEROOT'') ''/var/lib/dpkg/status'' = None
      \<longrightarrow> (dpkg_run e s :: 'job option \<times> ('db, 'sch) session)
            = (None, log_line Err ''Cannot read /var/lib/dpkg/status!'' s)
          \<and> tb (snd (dpkg_run e s :: 'job option \<times> ('db, 'sch) session)) = tb s
          \<and> tb_writes (snd (dpkg_run e s :: 'job option \<times> ('db, 'sch) session)) = tb_writes s
          \<and> log (snd (dpkg_run e s :: 'job option \<times> ('db, 'sch) session))
              = log s @ [(Err, ''Cannot read /var/lib/dpkg/status!'')])
   \<and> (read_file e (parameters s ''packages.dpkg.installed'' ''ACTIVEROOT'') ''/var/lib/dpkg/status''
        = Some text
      \<longrightarrow> fst (dpkg_run e s :: 'job option \<times> ('db, 'sch) session) = None
          \<and> tb_writes (snd (dpkg_run e s :: 'job option \<times> ('db, 'sch) session))
              = tb_writes s
                @ [(parameters s ''packages.dpkg.installed'' ''TAG'',
                    TbPackages
                      (dpkg_entries
                         (triples (filter (\<lambda>x. startswith ''Package'' x \<or> startswith ''Status'' x
                                                \<or> startswith ''Version'' x)
                                     (splitlines text))) []))]
          \<and> tb (snd (dpkg_run e s :: 'job option \<times> ('db, 'sch) session))
              = (tb s)(parameters s ''packages.dpkg.installed'' ''TAG''
                       \<mapsto> TbPackages
                           (dpkg_entries
                              (triples (filter (\<lambda>x. startswith ''Package'' x \<or> startswith ''Status'' x
                                                     \<or> startswith ''Version'' x)
                                          (splitlines text))) []))
          \<and> log (snd (dpkg_run e s :: 'job option \<times> ('db, 'sch) session))
              = log s
                @ (if positive e (parameters s ''packages.dpkg.installed'' ''SILENT'') then []
                   else [(Ok,
                          str_nat
                            (length
                               (dpkg_entries
                                  (triples (filter (\<lambda>x. startswith ''Package'' x
                                                         \<or> startswith ''Status'' x
                                                         \<or> startswith ''Version'' x)
                                              (splitlines text))) []))
                          @ '' packages revealed.'')]))"
  by (simp add: dpkg_run_def Let_def tb_set_def log_unless_def log_line_def)

lemma example_entries:
  "dpkg_entries
     (triples (filter (\<lambda>x. startswith ''Package'' x \<or> startswith ''Status'' x \<or> startswith ''Version'' x)
                 (splitlines example_status))) []
   = [(''bash'', None, ''4.3-14'')]"
  by (simp add: example_status_def splitlines_def is_linebreak_def startswith_def field_of_def
        partition_str_def)

theorem dpkg_run_tb_write_witness:
  "read_file example_env (parameters (set_parameter ''packages.dpkg.installed'' ''TAG'' ''fw:0_tmp_packages'' example_session)
       ''packages.dpkg.installed'' ''ACTIVEROOT'') ''/var/lib/dpkg/status'' = Some example_status
   \<and> tb_writes (snd (dpkg_run example_env
        (set_parameter ''packages.dpkg.installed'' ''TAG'' ''fw:0_tmp_packages'' example_session)
          :: unit option \<times> _))
      = [(''fw:0_tmp_packages'', TbPackages [(''bash'', None, ''4.3-14'')])]
   \<and> read_file (example_env\<lparr>read_file := (\<lambda>root path. None)\<rparr>)
        (parameters example_session ''packages.dpkg.installed'' ''ACTIVEROOT'') ''/var/lib/dpkg/status'' = None
   \<and> tb (snd (dpkg_run (example_env\<lparr>read_file := (\<lambda>root path. None)\<rparr>) example_session
          :: unit option \<times> _)) = Map.empty
   \<and> log (snd (dpkg_run (example_env\<lparr>read_file := (\<lambda>root path. None)\<rparr>) example_session
          :: unit option \<times> _)) = [(Err, ''Cannot read /var/lib/dpkg/status!'')]
   \<and> log (snd (dpkg_run example_env
        (set_parameter ''packages.dpkg.installed'' ''TAG'' ''fw:0_tmp_packages'' example_session)
          :: unit option \<times> _))
      = [(Ok, ''1 packages revealed.'')]"
proof -
  let ?s = "set_parameter ''packages.dpkg.installed'' ''TAG'' ''fw:0_tmp_packages'' example_session"
  let ?e = "example_env\<lparr>read_file := (\<lambda>root path. None)\<rparr>"
  have r1: "read_file example_env (parameters ?s ''packages.dpkg.installed'' ''ACTIVEROOT'')
              ''/var/lib/dpkg/status'' = Some example_status"
    by (simp add: example_env_def)
  have r2: "read_file ?e (parameters example_session ''packages.dpkg.installed'' ''ACTIVEROOT'')
              ''/var/lib/dpkg/status'' = None"
    by simp
  have sil: "\<not> positive example_env (parameters ?s ''packages.dpkg.installed'' ''SILENT'')"
    by (simp add: example_env_def example_session_def set_parameter_def reset_parameters_def)
  have tag: "parameters ?s ''packages.dpkg.installed'' ''TAG'' = ''fw:0_tmp_packages''"
    by (simp add: set_parameter_def)
  have init: "tb_writes ?s = []" "log ?s = []" "tb example_session = Map.empty"
    "log example_session = []" "tb_writes example_session = []"
    by (simp_all add: example_session_def set_parameter_def)
  have one: "char_of (49::nat) = CHR ''1''"
    by code_simp
  show ?thesis
    using dpkg_run_tb_write [where ?'job = unit, of example_env ?s example_status]
          dpkg_run_tb_write [where ?'job = unit, of ?e example_session]
    by (simp add: r1 r2 sil tag init one example_entries log_line_def)
qed

section \<open>locasploit.update.vulnerabilities: properties\<close>

text \<open>
  C7 as stated fails: with BACKGROUND \<open>yes\<close>, \<open>run\<close> of
  \<open>locasploit.update.vulnerabilities\<close> returns a thread that has not been started, and
  the session is as it was.
\<close>

theorem luv_run_returns_unstarted_thread:
  "positive example_env
     (parameters example_session ''locasploit.update.vulnerabilities'' ''BACKGROUND'')
   \<and> map_option thr_started (fst (luv_run example_env example_run example_add example_session))
       = Some False
   \<and> snd (luv_run example_env example_run example_add example_session) = example_session"
  by (simp add: luv_run_def Thread_def example_env_def example_session_def reset_parameters_def)

text \<open>
  C7, amended. When BACKGROUND is positive, \<open>run\<close> returns the thread object it has
  built, not started, and has done nothing else. When BACKGROUND is not positive (so
  whenever it is negative and not positive), \<open>run\<close> starts the thread, waits for its
  body to end and returns \<open>None\<close>.
\<close>

theorem luv_run_handle:
  "(positive e (parameters s ''locasploit.update.vulnerabilities'' ''BACKGROUND'')
      \<longrightarrow> luv_run e run_module sched_add s
            = (Some (Thread (positive e (parameters s ''locasploit.update.vulnerabilities'' ''SILENT''))
                       True), s)
          \<and> \<not> thr_started
                (Thread (positive e (parameters s ''locasploit.update.vulnerabilities'' ''SILENT''))
                   True))
   \<and> (\<not> positive e (parameters s ''locasploit.update.vulnerabilities'' ''BACKGROUND'')
      \<longrightarrow> luv_run e run_module sched_add s
            = (None,
               snd (thread_run e run_module sched_add
                      (start (Thread
                         (positive e (parameters s ''locasploit.update.vulnerabilities'' ''SILENT''))
                         False)) s)))"
  by (simp add: luv_run_def Let_def split_beta Thread_def)

theorem luv_run_handle_witness:
  "positive example_env
     (parameters example_session ''locasploit.update.vulnerabilities'' ''BACKGROUND'')
   \<and> luv_run example_env example_run example_add example_session
       = (Some \<lparr>thr_silent = False, thr_terminate = False, thr_background = True,
                thr_started = False\<rparr>, example_session)
   \<and> \<not> positive example_env
         (parameters (set_parameter ''locasploit.update.vulnerabilities'' ''BACKGROUND'' ''no''
                        example_session)
            ''locasploit.update.vulnerabilities'' ''BACKGROUND'')
   \<and> fst (luv_run example_env example_run example_add
            (set_parameter ''locasploit.update.vulnerabilities'' ''BACKGROUND'' ''no''
               example_session)) = None"
  using luv_run_handle [of example_env example_session example_run example_add]
        luv_run_handle
          [of example_env
              "set_parameter ''locasploit.update.vulnerabilities'' ''BACKGROUND'' ''no'' example_session"
              example_run example_add]
  by (simp add: Thread_def example_env_def example_session_def reset_parameters_def
        set_parameter_def)

lemma submit_none:
  "(fst (submit sched_add name job waitfor s) = None) = (job = None)"
  by (cases job) (simp_all add: submit_def split_beta)

text \<open>
  C10. In \<open>Thread.run\<close>, once the three sub-modules have run: \<open>lucid\<close> is \<open>None\<close> exactly
  when the run of \<open>locasploit.update.cve\<close> returned \<open>None\<close>, \<open>lue\<close> is \<open>None\<close> exactly when
  the run of \<open>locasploit.update.exploit\<close> returned \<open>None\<close>; if either did, \<open>lucid+lue\<close>
  raises TypeError, the thread ends with it and the session is the one the run of
  \<open>locasploit.cleanup\<close> left, with no registration of the cleanup job; otherwise the
  cleanup job is registered, waiting for the two earlier jobs.
\<close>

theorem thread_run_registration:
  assumes "\<not> thr_terminate self" and "fst (thread_feeds e self s) = Inr ()"
  shows
  "(let s0 = snd (thread_feeds e self s);
        (job1, s1) = run_module ''locasploit.update.cve'' s0;
        (lucid, s2) = submit sched_add ''locasploit.update.cve'' job1 Default s1;
        (job2, s3) = run_module ''locasploit.update.exploit''
                       (set_parameter ''locasploit.update.exploit'' ''BACKGROUND''
                          (if thr_background self then ''yes'' else ''no'') s2);
        (lue, s4) = submit sched_add ''locasploit.update.exploit'' job2 (Passed lucid) s3;
        (job3, s5) = run_module ''locasploit.cleanup''
                       (set_parameter ''locasploit.cleanup'' ''BACKGROUND''
                          (if thr_background self then ''yes'' else ''no'') s4)
    in (lucid = None) = (job1 = None) \<and> (lue = None) = (job2 = None)
       \<and> list_add lucid lue
           = (if job1 = None \<or> job2 = None then Inl TypeError else Inr (the lucid @ the lue))
       \<and> thread_run e run_module sched_add self s
           = (if job1 = None \<or> job2 = None then (Inl TypeError, s5)
              else (Inr (),
                    snd (sched_add ''locasploit.cleanup'' job3
                           (Passed (Some (the lucid @ the lue))) s5))))"
proof -
  define bg where "bg = (if thr_background self then ''yes'' else ''no'')"
  obtain u s0 where f: "thread_feeds e self s = (u, s0)" by (cases "thread_feeds e self s")
  with assms(2) have u: "u = Inr ()" by simp
  obtain job1 s1 where r1: "run_module ''locasploit.update.cve'' s0 = (job1, s1)"
    by (cases "run_module ''locasploit.update.cve'' s0")
  obtain lucid s2 where l1: "submit sched_add ''locasploit.update.cve'' job1 Default s1 = (lucid, s2)"
    by (cases "submit sched_add ''locasploit.update.cve'' job1 Default s1")
  obtain job2 s3 where r2: "run_module ''locasploit.update.exploit''
                       (set_parameter ''locasploit.update.exploit'' ''BACKGROUND'' bg s2) = (job2, s3)"
    by (cases "run_module ''locasploit.update.exploit''
                       (set_parameter ''locasploit.update.exploit'' ''BACKGROUND'' bg s2)")
  obtain lue s4 where l2: "submit sched_add ''locasploit.update.exploit'' job2 (Passed lucid) s3 = (lue, s4)"
    by (cases "submit sched_add ''locasploit.update.exploit'' job2 (Passed lucid) s3")
  obtain job3 s5 where r3: "run_module ''locasploit.cleanup''
                       (set_parameter ''locasploit.cleanup'' ''BACKGROUND'' bg s4) = (job3, s5)"
    by (cases "run_module ''locasploit.cleanup''
                       (set_parameter ''locasploit.cleanup'' ''BACKGROUND'' bg s4)")
  have n1: "(lucid = None) = (job1 = None)"
    using submit_none [of sched_add "''locasploit.update.cve''" job1 Default s1] l1 by simp
  have n2: "(lue = None) = (job2 = None)"
    using submit_none [of sched_add "''locasploit.update.exploit''" job2 "Passed lucid" s3] l2
    by simp
  have la: "list_add lucid lue
           = (if job1 = None \<or> job2 = None then Inl TypeError else Inr (the lucid @ the lue))"
    using n1 n2 by (cases lucid; cases lue) (simp_all add: list_add_def)
  have tr: "thread_run e run_module sched_add self s
           = (case list_add lucid lue of
                Inl err \<Rightarrow> (Inl err, s5)
              | Inr waitfor \<Rightarrow>
                  (Inr (), snd (sched_add ''locasploit.cleanup'' job3 (Passed (Some waitfor)) s5)))"
    using assms(1) unfolding thread_run_def bg_def [symmetric]
    by (simp add: f u r1 l1 r2 l2 r3 split_beta split: sum.split)
  show ?thesis
    unfolding bg_def [symmetric]
    by (simp add: f r1 l1 r2 l2 r3 n1 n2 la tr)
qed

theorem thread_run_registration_witness:
  "\<not> thr_terminate (Thread False True)
   \<and> fst (thread_feeds example_env (Thread False True) example_session) = Inr ()
   \<and> fst (thread_run example_env example_run example_add (Thread False True) example_session)
       = Inr ()
   \<and> scheduler (snd (thread_run example_env example_run example_add (Thread False True)
                       example_session))
       = [(''locasploit.update.cve'', Default),
          (''locasploit.update.exploit'', Passed (Some [0])),
          (''locasploit.cleanup'', Passed (Some [0, 1]))]
   \<and> \<not> thr_terminate (Thread False False)
   \<and> fst (thread_feeds example_env (Thread False False) example_session) = Inr ()
   \<and> fst (thread_run example_env example_run example_add (Thread False False) example_session)
       = Inl TypeError
   \<and> scheduler (snd (thread_run example_env example_run example_add (Thread False False)
                       example_session)) = []"
  using thread_run_registration
          [of "Thread False True" example_env example_session example_run example_add]
        thread_run_registration
          [of "Thread False False" example_env example_session example_run example_add]
  by (simp add: Thread_def thread_feeds_def submit_def example_env_def example_session_def
        example_run_def example_add_def reset_parameters_def set_parameter_def log_line_def
        Let_def)

end
